theory Spec2Isabelle
  imports Main "HOL-Library.Sublist"
begin

section \<open>GitMan front end: the \<open>Home\<close> component of \<open>frontend/app/page.tsx\<close>\<close>

text \<open>
  The component keeps nine pieces of React state and reacts to form submissions, a
  microphone button, three speech-recognition callbacks, a timer and the resolution of
  two backend promises. Each handler is embedded as a function from the component state
  to the component state. An \<^verbatim>\<open>async\<close> handler is cut at its \<^verbatim>\<open>await\<close>: the part
  that runs synchronously is the \<open>_start\<close> function, the part that runs when the
  promise settles is the \<open>_resolve\<close> function, and the handler's own name is their
  composition (nothing else running in between).

  Values a handler reads from its closure (\<open>input\<close>, \<open>repoUrl\<close>, \<open>synthesis\<close>) are
  those of the render in which the handler was created; a continuation gets them as
  explicit arguments. State updates written \<^verbatim>\<open>setMessages(prev => ...)\<close> act on the
  state current when they run. Writes to the console and \<^verbatim>\<open>e.preventDefault()\<close>
  touch nothing the component reads and are left out.
\<close>

subsection \<open>Data\<close>

text \<open>
  A JavaScript string is a sequence of UTF-16 code units, each given by its number. A
  string literal of the source (all of them are ASCII) is written \<open>lit\<close> of the
  corresponding characters.
\<close>

type_synonym jstring = "nat list"

definition lit :: "string \<Rightarrow> jstring" where
  "lit cs = map of_char cs"

datatype role = User | Assistant

record Message =
  role :: role
  content :: jstring

text \<open>\<^verbatim>\<open>interface RepoContent { content: string; tree: string }\<close>\<close>

record RepoContent =
  repo_content :: jstring
  repo_tree :: jstring

text \<open>What a rejected promise throws: an \<^verbatim>\<open>Error\<close> with its message, or any other value.\<close>

datatype thrown = ErrorObj jstring | NonError

datatype 'a outcome = Resolved 'a | Rejected thrown

text \<open>Calls that leave the component, recorded in the order they are made.\<close>

datatype api_call = IngestRepository jstring | SendChatMessage jstring jstring

datatype rec_call = RecStart | RecStop

text \<open>
  The first nine fields are the \<^verbatim>\<open>useState\<close> cells of lines 24--32 (\<open>recognition\<close> and
  \<open>synthesis\<close> record whether the cell holds an object or \<^verbatim>\<open>null\<close>). The remaining
  fields are not React state: they log the effects of the handlers, namely the calls
  of \<^verbatim>\<open>speakMessage\<close>, the utterances handed to \<^verbatim>\<open>synthesis.speak\<close>, the calls of
  \<^verbatim>\<open>ingestRepository\<close> and \<^verbatim>\<open>sendChatMessage\<close>, the calls of
  \<^verbatim>\<open>recognition.start\<close>/\<^verbatim>\<open>stop\<close> that returned, and the number of
  \<^verbatim>\<open>setTimeout\<close> callbacks scheduled and not yet run.
\<close>

record Home =
  repoUrl :: jstring
  repoContent :: "RepoContent option"
  isLoading :: bool
  error :: "jstring option"
  messages :: "Message list"
  input :: jstring
  isListening :: bool
  recognition :: bool
  synthesis :: bool
  speakCalls :: "jstring list"
  utterances :: "jstring list"
  apiCalls :: "api_call list"
  recCalls :: "rec_call list"
  timers :: nat

definition initial :: Home where
  "initial = \<lparr>repoUrl = [], repoContent = None, isLoading = False, error = None,
     messages = [], input = [], isListening = False, recognition = False,
     synthesis = False, speakCalls = [], utterances = [], apiCalls = [],
     recCalls = [], timers = 0\<rparr>"

subsection \<open>Strings\<close>

text \<open>
  \<^verbatim>\<open>String.prototype.trim\<close> removes, at both ends, the code units that ECMAScript
  calls WhiteSpace or LineTerminator: tab, line feed, vertical tab, form feed, carriage
  return, space, no-break space (U+00A0), the other space separators (U+1680,
  U+2000 to U+200A, U+202F, U+205F, U+3000), the line and paragraph separators
  (U+2028, U+2029) and the byte order mark (U+FEFF).
\<close>

definition isWhite :: "nat \<Rightarrow> bool" where
  "isWhite c = (c = 0x09 \<or> c = 0x0A \<or> c = 0x0B \<or> c = 0x0C \<or> c = 0x0D \<or> c = 0x20
     \<or> c = 0xA0 \<or> c = 0x1680 \<or> (0x2000 \<le> c \<and> c \<le> 0x200A)
     \<or> c = 0x2028 \<or> c = 0x2029 \<or> c = 0x202F \<or> c = 0x205F \<or> c = 0x3000
     \<or> c = 0xFEFF)"

definition trim :: "jstring \<Rightarrow> jstring" where
  "trim s = rev (dropWhile isWhite (rev (dropWhile isWhite s)))"

text \<open>\<^verbatim>\<open>error instanceof Error ? error.message : fallback\<close>\<close>

fun errorText :: "thrown \<Rightarrow> jstring \<Rightarrow> jstring" where
  "errorText (ErrorObj m) fallback = m"
| "errorText NonError fallback = fallback"

text \<open>The template literal of line 142.\<close>

definition welcomeText :: "jstring \<Rightarrow> jstring" where
  "welcomeText url =
     lit (''Repository ingested successfully! I'' @ [CHR 0x27] @
          ''m ready to chat about the repository: '') @ url @
     lit ''. What would you like to know?''"

definition aiResponse :: jstring where
  "aiResponse = lit ''This is a simulated response. In a real application, this would be the response from your AI backend.''"

subsection \<open>Mount effect (lines 34--64)\<close>

text \<open>
  \<open>hasSR\<close>, \<open>hasWebkitSR\<close> and \<open>hasSynth\<close> say whether \<^verbatim>\<open>window\<close> has the properties
  \<^verbatim>\<open>SpeechRecognition\<close>, \<^verbatim>\<open>webkitSpeechRecognition\<close> and \<^verbatim>\<open>speechSynthesis\<close>.
\<close>

definition useEffect_mount :: "bool \<Rightarrow> bool \<Rightarrow> bool \<Rightarrow> Home \<Rightarrow> Home" where
  "useEffect_mount hasSR hasWebkitSR hasSynth s =
     (let s1 = (if hasSR \<or> hasWebkitSR then s\<lparr>recognition := True\<rparr> else s)
      in if hasSynth then s1\<lparr>synthesis := True\<rparr> else s1)"

subsection \<open>Speech output (lines 75--80)\<close>

text \<open>\<open>syn\<close> is the value of \<open>synthesis\<close> in the closure of the caller.\<close>

definition speakMessage :: "bool \<Rightarrow> jstring \<Rightarrow> Home \<Rightarrow> Home" where
  "speakMessage syn text s =
     s\<lparr>speakCalls := speakCalls s @ [text],
       utterances := (if syn then utterances s @ [text] else utterances s)\<rparr>"

subsection \<open>Microphone button (lines 66--73)\<close>

text \<open>
  With a recognition object the handler calls its \<^verbatim>\<open>stop\<close> or \<^verbatim>\<open>start\<close>; the browser
  may answer the call with an exception (\<^verbatim>\<open>start\<close> on a recogniser that is already
  started throws \<^verbatim>\<open>InvalidStateError\<close>), and then the handler is left before line 72.
  \<open>throws\<close> says whether the call made throws. Without a recognition object the optional
  chaining makes no call, so nothing can throw.
\<close>

definition toggleListening :: "bool \<Rightarrow> Home \<Rightarrow> Home" where
  "toggleListening throws s =
     (if recognition s then
        (if throws then s
         else s\<lparr>recCalls := recCalls s @ [if isListening s then RecStop else RecStart],
                isListening := \<not> isListening s\<rparr>)
      else s\<lparr>isListening := \<not> isListening s\<rparr>)"

subsection \<open>The simulated chat path (lines 82--102)\<close>

definition handleMessageSubmit :: "jstring \<Rightarrow> Home \<Rightarrow> Home" where
  "handleMessageSubmit message s =
     (if trim message = [] then s
      else s\<lparr>messages := messages s @ [\<lparr>role = User, content = message\<rparr>],
             input := [],
             timers := Suc (timers s)\<rparr>)"

text \<open>The callback given to \<^verbatim>\<open>setTimeout\<close> (lines 93--101).\<close>

definition simulatedReply :: "bool \<Rightarrow> Home \<Rightarrow> Home" where
  "simulatedReply syn s =
     speakMessage syn aiResponse
       (s\<lparr>messages := messages s @ [\<lparr>role = Assistant, content = aiResponse\<rparr>],
          timers := timers s - 1\<rparr>)"

subsection \<open>Speech recognition callbacks (lines 42--55)\<close>

definition onresult :: "jstring \<Rightarrow> Home \<Rightarrow> Home" where
  "onresult transcript s = handleMessageSubmit transcript (s\<lparr>input := transcript\<rparr>)"

definition onerror :: "Home \<Rightarrow> Home" where
  "onerror s = s\<lparr>isListening := False\<rparr>"

definition onend :: "Home \<Rightarrow> Home" where
  "onend s = s\<lparr>isListening := False\<rparr>"

text \<open>
  A whole voice turn: the transcript arrives and, when it is not blank, the timer fires
  a second later. \<open>syn\<close> is the \<open>synthesis\<close> seen by the \<^verbatim>\<open>speakMessage\<close> that the
  recognition callback closes over; the callback is installed by the mount effect, so it
  is the one of the first render, where \<open>synthesis\<close> is still \<^verbatim>\<open>null\<close>.
\<close>

definition voiceTurn :: "bool \<Rightarrow> jstring \<Rightarrow> Home \<Rightarrow> Home" where
  "voiceTurn syn transcript s =
     (if trim transcript = [] then onresult transcript s
      else simulatedReply syn (onresult transcript s))"

subsection \<open>The chat form (lines 104--126)\<close>

text \<open>
  The synchronous part up to \<^verbatim>\<open>await sendChatMessage(input, repoUrl)\<close>. The second
  component says whether the request was sent.
\<close>

definition handleChatSubmit_start :: "Home \<Rightarrow> Home \<times> bool" where
  "handleChatSubmit_start s =
     (if trim (input s) = [] \<or> repoUrl s = [] then (s, False)
      else (s\<lparr>messages := messages s @ [\<lparr>role = User, content = input s\<rparr>],
              input := [],
              isLoading := True,
              apiCalls := apiCalls s @ [SendChatMessage (input s) (repoUrl s)]\<rparr>, True))"

text \<open>
  The continuation: \<^verbatim>\<open>try\<close> branch, \<^verbatim>\<open>catch\<close> branch, then \<^verbatim>\<open>finally\<close>. The
  outcome carries \<^verbatim>\<open>response.response\<close>.
\<close>

fun handleChatSubmit_resolve :: "bool \<Rightarrow> jstring outcome \<Rightarrow> Home \<Rightarrow> Home" where
  "handleChatSubmit_resolve syn (Resolved response) s =
     (speakMessage syn response
        (s\<lparr>messages := messages s @ [\<lparr>role = Assistant, content = response\<rparr>]\<rparr>))
       \<lparr>isLoading := False\<rparr>"
| "handleChatSubmit_resolve syn (Rejected e) s =
     s\<lparr>error := Some (errorText e (lit ''Failed to send message'')), isLoading := False\<rparr>"

definition handleChatSubmit :: "Home \<Rightarrow> jstring outcome \<Rightarrow> Home" where
  "handleChatSubmit s out =
     (case handleChatSubmit_start s of
        (s1, sent) \<Rightarrow> if sent then handleChatSubmit_resolve (synthesis s) out s1 else s1)"

subsection \<open>The repository form (lines 128--150)\<close>

text \<open>
  The synchronous part up to \<^verbatim>\<open>await ingestRepository(repoUrl)\<close>. The handler has no
  early return, so the request is always sent.
\<close>

definition handleRepoSubmit_start :: "Home \<Rightarrow> Home" where
  "handleRepoSubmit_start s =
     s\<lparr>isLoading := True, error := None,
       apiCalls := apiCalls s @ [IngestRepository (repoUrl s)]\<rparr>"

text \<open>The continuation; \<open>url\<close> is the \<open>repoUrl\<close> of the closure.\<close>

fun handleRepoSubmit_resolve :: "jstring \<Rightarrow> RepoContent outcome \<Rightarrow> Home \<Rightarrow> Home" where
  "handleRepoSubmit_resolve url (Resolved result) s =
     s\<lparr>repoContent := Some \<lparr>repo_content = repo_content result, repo_tree = repo_tree result\<rparr>,
       messages := [\<lparr>role = Assistant, content = welcomeText url\<rparr>],
       isLoading := False\<rparr>"
| "handleRepoSubmit_resolve url (Rejected e) s =
     s\<lparr>error := Some (errorText e (lit ''An error occurred'')), repoContent := None,
       isLoading := False\<rparr>"

definition handleRepoSubmit :: "Home \<Rightarrow> RepoContent outcome \<Rightarrow> Home" where
  "handleRepoSubmit s out = handleRepoSubmit_resolve (repoUrl s) out (handleRepoSubmit_start s)"

subsection \<open>Events\<close>

text \<open>
  Everything that can happen to the mounted component: the mount effect, the two
  \<^verbatim>\<open>onChange\<close> handlers (lines 165 and 212), the synchronous part of each form
  handler, the settling of each backend promise (with the values its continuation
  closes over), the microphone button (with whether the recognition call it makes
  throws), the three recognition callbacks and the timer callback. A timer callback runs only if one is scheduled. A settlement or a
  recognition callback is taken as it comes: \<open>step\<close> does not ask whether a request
  is pending or the recogniser was started, so a statement about every event covers
  at least the events that can happen.
\<close>

datatype event =
    Mount bool bool bool
  | ChangeRepoUrl jstring
  | ChangeInput jstring
  | SubmitRepoForm
  | IngestSettled jstring "RepoContent outcome"
  | SubmitChatForm
  | AskSettled bool "jstring outcome"
  | ClickMic bool
  | RecResult jstring
  | RecError
  | RecEnd
  | TimerFired bool

fun step :: "event \<Rightarrow> Home \<Rightarrow> Home" where
  "step (Mount hasSR hasWebkitSR hasSynth) s = useEffect_mount hasSR hasWebkitSR hasSynth s"
| "step (ChangeRepoUrl v) s = s\<lparr>repoUrl := v\<rparr>"
| "step (ChangeInput v) s = s\<lparr>input := v\<rparr>"
| "step SubmitRepoForm s = handleRepoSubmit_start s"
| "step (IngestSettled url out) s = handleRepoSubmit_resolve url out s"
| "step SubmitChatForm s = fst (handleChatSubmit_start s)"
| "step (AskSettled syn out) s = handleChatSubmit_resolve syn out s"
| "step (ClickMic throws) s = toggleListening throws s"
| "step (RecResult transcript) s = onresult transcript s"
| "step RecError s = onerror s"
| "step RecEnd s = onend s"
| "step (TimerFired syn) s = (if timers s = 0 then s else simulatedReply syn s)"

fun ingestSucceeded :: "event \<Rightarrow> bool" where
  "ingestSucceeded (IngestSettled url (Resolved result)) = True"
| "ingestSucceeded e = False"

subsection \<open>What the rendered page lets through (lines 152--235)\<close>

datatype blocked = NotRendered | Disabled | ValueMissing | TypeMismatch

text \<open>
  Modelled from the spec: the controls \<^verbatim>\<open>Input\<close> and \<^verbatim>\<open>Button\<close> of
  \<^verbatim>\<open>@/components/ui\<close>, and the browser that renders them and validates a form
  before it raises the submit event, are not part of the source file. The
  specification describes the repository form as taking a URL that is required, must be
  non-empty and is expected to be URL-shaped, says that an empty or malformed URL is
  rejected locally with no state transition, and that the busy flag blocks new
  submissions of the same kind. The markup is read accordingly:
  \<^item> the chat form and the microphone button sit inside \<^verbatim>\<open>{repoContent && ...}\<close>, so
    without repository content their events cannot occur (\<open>NotRendered\<close>);
  \<^item> the inputs and submit buttons of both forms carry \<^verbatim>\<open>disabled={isLoading}\<close>, so
    while loading their events cannot occur (\<open>Disabled\<close>); the microphone button has
    no such attribute;
  \<^item> the URL input carries \<^verbatim>\<open>required\<close> and \<^verbatim>\<open>type="url"\<close>, so the submit event is
    not raised while the field is empty (\<open>ValueMissing\<close>) or is not a URL
    (\<open>TypeMismatch\<close>); \<open>validUrl\<close> is the browser's test for a URL.
  Promise settlements, recognition callbacks and timers do not pass through the page.
\<close>

fun blockedBy :: "(jstring \<Rightarrow> bool) \<Rightarrow> event \<Rightarrow> Home \<Rightarrow> blocked option" where
  "blockedBy validUrl (ChangeRepoUrl v) s = (if isLoading s then Some Disabled else None)"
| "blockedBy validUrl (ChangeInput v) s =
     (if repoContent s = None then Some NotRendered
      else if isLoading s then Some Disabled else None)"
| "blockedBy validUrl SubmitRepoForm s =
     (if isLoading s then Some Disabled
      else if repoUrl s = [] then Some ValueMissing
      else if validUrl (repoUrl s) then None else Some TypeMismatch)"
| "blockedBy validUrl SubmitChatForm s =
     (if repoContent s = None then Some NotRendered
      else if isLoading s then Some Disabled else None)"
| "blockedBy validUrl (ClickMic throws) s =
     (if repoContent s = None then Some NotRendered else None)"
| "blockedBy validUrl e s = None"

definition deliver :: "(jstring \<Rightarrow> bool) \<Rightarrow> event \<Rightarrow> Home \<Rightarrow> blocked + Home" where
  "deliver validUrl e s =
     (case blockedBy validUrl e s of None \<Rightarrow> Inr (step e s) | Some b \<Rightarrow> Inl b)"

fun run :: "(jstring \<Rightarrow> bool) \<Rightarrow> event list \<Rightarrow> Home \<Rightarrow> blocked + Home" where
  "run validUrl [] s = Inr s"
| "run validUrl (e # es) s =
     (case deliver validUrl e s of Inl b \<Rightarrow> Inl b | Inr s1 \<Rightarrow> run validUrl es s1)"

text \<open>
  The state after the user tries an event: the next state if the page delivers it, the
  same state if not.
\<close>

definition attempt :: "(jstring \<Rightarrow> bool) \<Rightarrow> event \<Rightarrow> Home \<Rightarrow> Home" where
  "attempt validUrl e s = (case deliver validUrl e s of Inl b \<Rightarrow> s | Inr s1 \<Rightarrow> s1)"

text \<open>
  The chat form can be submitted exactly when the repository content is present and
  nothing is loading: the session state the specification calls Ready.
\<close>

definition chatReady :: "Home \<Rightarrow> bool" where
  "chatReady s = (repoContent s \<noteq> None \<and> \<not> isLoading s)"

subsection \<open>Sample sessions\<close>

text \<open>
  States used to evaluate the handlers. Each is reached from \<open>initial\<close> by events the
  page lets through (lemmas \<open>exampleReady_reachable\<close> and following).
\<close>

definition exampleUrl :: jstring where
  "exampleUrl = (lit ''https://github.com/a/b'')"

definition exampleRepo :: RepoContent where
  "exampleRepo = \<lparr>repo_content = (lit ''# b''), repo_tree = (lit ''README.md'')\<rparr>"

text \<open>After mounting in a browser with both speech features and ingesting \<open>exampleUrl\<close>.\<close>

definition exampleReady :: Home where
  "exampleReady = \<lparr>repoUrl = exampleUrl, repoContent = Some exampleRepo, isLoading = False,
     error = None, messages = [\<lparr>role = Assistant, content = welcomeText exampleUrl\<rparr>],
     input = [], isListening = False, recognition = True, synthesis = True,
     speakCalls = [], utterances = [], apiCalls = [IngestRepository exampleUrl],
     recCalls = [], timers = 0\<rparr>"

text \<open>The microphone was switched on, then a typed question was sent and is in flight.\<close>

definition examplePending :: Home where
  "examplePending = exampleReady
     \<lparr>isLoading := True,
      messages := messages exampleReady @ [\<lparr>role = User, content = (lit ''what does this do?'')\<rparr>],
      isListening := True,
      apiCalls := apiCalls exampleReady @ [SendChatMessage (lit ''what does this do?'') exampleUrl],
      recCalls := [RecStart]\<rparr>"

text \<open>A typed question was sent and the backend rejected it.\<close>

definition exampleChatFailed :: Home where
  "exampleChatFailed = exampleReady
     \<lparr>error := Some (lit ''Repository not indexed''),
      messages := messages exampleReady @ [\<lparr>role = User, content = (lit ''what does this do?'')\<rparr>],
      apiCalls := apiCalls exampleReady @ [SendChatMessage (lit ''what does this do?'') exampleUrl]\<rparr>"

text \<open>A typed question was sent and answered.\<close>

definition exampleChatted :: Home where
  "exampleChatted = exampleReady
     \<lparr>messages := messages exampleReady @ [\<lparr>role = User, content = (lit ''what does this do?'')\<rparr>,
        \<lparr>role = Assistant, content = (lit ''It is a web service.'')\<rparr>],
      speakCalls := [(lit ''It is a web service.'')],
      utterances := [(lit ''It is a web service.'')],
      apiCalls := apiCalls exampleReady @ [SendChatMessage (lit ''what does this do?'') exampleUrl]\<rparr>"

text \<open>As \<open>exampleReady\<close>, in a browser with neither speech feature.\<close>

definition exampleNoSpeech :: Home where
  "exampleNoSpeech = exampleReady\<lparr>recognition := False, synthesis := False\<rparr>"

section \<open>Properties\<close>

subsection \<open>Auxiliary facts\<close>

lemmas handler_defs = deliver_def initial_def useEffect_mount_def handleRepoSubmit_start_def
  handleChatSubmit_start_def toggleListening_def onresult_def handleMessageSubmit_def
  simulatedReply_def speakMessage_def onerror_def onend_def trim_def isWhite_def lit_def

text \<open>The guard \<^verbatim>\<open>!message.trim()\<close> holds exactly for strings of white space.\<close>

lemma trim_eq_Nil: "(trim s = []) = (\<forall>c\<in>set s. isWhite c)"
proof
  assume "trim s = []"
  then have all: "\<forall>x\<in>set (dropWhile isWhite s). isWhite x"
    by (simp add: trim_def dropWhile_eq_Nil_conv)
  have "dropWhile isWhite s = []"
  proof (rule ccontr)
    assume ne: "dropWhile isWhite s \<noteq> []"
    then have "\<not> isWhite (hd (dropWhile isWhite s))" by (rule hd_dropWhile)
    moreover have "hd (dropWhile isWhite s) \<in> set (dropWhile isWhite s)"
      using ne by simp
    ultimately show False using all by blast
  qed
  then show "\<forall>c\<in>set s. isWhite c" by (simp add: dropWhile_eq_Nil_conv)
next
  assume "\<forall>c\<in>set s. isWhite c"
  then have d: "dropWhile isWhite s = []" by simp
  show "trim s = []" unfolding trim_def d by simp
qed

text \<open>
  White space beyond ASCII is blank too: a chat input made of a no-break space, an em
  space and a byte order mark does not pass the guard of line 106, and the handler
  returns without any effect.
\<close>

lemma trim_unicode_blank: "trim [0xA0, 0x2003, 0xFEFF] = []"
  by (simp add: trim_def isWhite_def)

lemma handleChatSubmit_unicode_blank:
  "input s = [0xA0, 0x2003, 0xFEFF] \<Longrightarrow> handleChatSubmit s out = s"
  by (simp add: handleChatSubmit_def handleChatSubmit_start_def trim_unicode_blank)

lemma exampleReady_reachable:
  "run (\<lambda>u. True)
     [Mount True False True, ChangeRepoUrl exampleUrl, SubmitRepoForm,
      IngestSettled exampleUrl (Resolved exampleRepo)] initial = Inr exampleReady"
  by (simp add: handler_defs exampleReady_def exampleUrl_def exampleRepo_def)

lemma examplePending_reachable:
  "run (\<lambda>u. True)
     [ClickMic False, ChangeInput (lit ''what does this do?''), SubmitChatForm] exampleReady
   = Inr examplePending"
  by (simp add: handler_defs examplePending_def exampleReady_def exampleUrl_def
      exampleRepo_def)

lemma exampleChatFailed_reachable:
  "run (\<lambda>u. True)
     [ChangeInput (lit ''what does this do?''), SubmitChatForm,
      AskSettled True (Rejected (ErrorObj (lit ''Repository not indexed'')))] exampleReady
   = Inr exampleChatFailed"
  by (simp add: handler_defs exampleChatFailed_def exampleReady_def exampleUrl_def
      exampleRepo_def)

lemma exampleChatted_reachable:
  "run (\<lambda>u. True)
     [ChangeInput (lit ''what does this do?''), SubmitChatForm,
      AskSettled True (Resolved (lit ''It is a web service.''))] exampleReady
   = Inr exampleChatted"
  by (simp add: handler_defs exampleChatted_def exampleReady_def exampleUrl_def
      exampleRepo_def)

lemma exampleNoSpeech_reachable:
  "run (\<lambda>u. True)
     [Mount False False False, ChangeRepoUrl exampleUrl, SubmitRepoForm,
      IngestSettled exampleUrl (Resolved exampleRepo)] initial = Inr exampleNoSpeech"
  by (simp add: handler_defs exampleNoSpeech_def exampleReady_def exampleUrl_def
      exampleRepo_def)

text \<open>A chat submission that passes the guard of line 106 sends the request.\<close>

lemma handleChatSubmit_sent:
  assumes "trim (input s) \<noteq> []" and "repoUrl s \<noteq> []"
  shows "handleChatSubmit s out =
     handleChatSubmit_resolve (synthesis s) out
       (s\<lparr>messages := messages s @ [\<lparr>role = User, content = input s\<rparr>],
          input := [], isLoading := True,
          apiCalls := apiCalls s @ [SendChatMessage (input s) (repoUrl s)]\<rparr>)"
  using assms by (simp add: handleChatSubmit_def handleChatSubmit_start_def)

text \<open>The page delivers a typed chat submission only in a ready session.\<close>

lemma chat_form_blocked: "\<not> chatReady s \<Longrightarrow> isl (deliver validUrl SubmitChatForm s)"
  by (auto simp: chatReady_def deliver_def)

text \<open>The voice path never reaches the backend and never sets \<open>isLoading\<close>.\<close>

lemma voiceTurn_no_backend: "apiCalls (voiceTurn syn transcript s) = apiCalls s"
  by (simp add: voiceTurn_def onresult_def handleMessageSubmit_def simulatedReply_def
      speakMessage_def)

lemma onresult_isLoading: "isLoading (onresult transcript s) = isLoading s"
  by (simp add: onresult_def handleMessageSubmit_def)

text \<open>
  The two halves of a chat round trip, each on its own: whatever happened in between,
  the continuation of an answered request appends the reply and nothing else.
\<close>

lemma ask_start_appends_user:
  assumes "trim (input s) \<noteq> []" and "repoUrl s \<noteq> []"
  shows "messages (step SubmitChatForm s) = messages s @ [\<lparr>role = User, content = input s\<rparr>]"
  using assms by (simp add: handleChatSubmit_start_def)

lemma ask_resolve_appends_reply:
  "messages (step (AskSettled syn (Resolved reply)) s)
     = messages s @ [\<lparr>role = Assistant, content = reply\<rparr>]"
  by (simp add: speakMessage_def)

lemma ask_reject_keeps_log: "messages (step (AskSettled syn (Rejected e)) s) = messages s"
  by simp

text \<open>Nothing in \<open>handleChatSubmit\<close> writes \<open>error\<close> when the request succeeds.\<close>

lemma ask_success_error_unchanged: "error (handleChatSubmit s (Resolved reply)) = error s"
  by (simp add: handleChatSubmit_def handleChatSubmit_start_def speakMessage_def)

text \<open>Without a recognition object the microphone button only flips \<open>isListening\<close>.\<close>

lemma toggleListening_no_recognition:
  "\<not> recognition s \<Longrightarrow> toggleListening throws s = s\<lparr>isListening := \<not> isListening s\<rparr>"
  by (simp add: toggleListening_def)

subsection \<open>Voice submission against typed submission\<close>

text \<open>
  C1. The specification wants a recognised transcript handled exactly as a typed
  submission of the same text: the same backend round trip, the same growth of the
  log. The code does not do that. In the ready session \<open>exampleReady\<close>, the voice
  turn for \<open>hello\<close> makes no backend call and appends the fixed simulated reply, while
  the typed submission of \<open>hello\<close> calls \<^verbatim>\<open>sendChatMessage\<close> and appends the
  backend's reply.
\<close>

theorem voice_turn_is_simulated:
  "messages (voiceTurn syn (lit ''hello'') exampleReady)
     = [\<lparr>role = Assistant, content = welcomeText exampleUrl\<rparr>,
        \<lparr>role = User, content = (lit ''hello'')\<rparr>,
        \<lparr>role = Assistant, content = aiResponse\<rparr>]
   \<and> apiCalls (voiceTurn syn (lit ''hello'') exampleReady) = [IngestRepository exampleUrl]
   \<and> messages (handleChatSubmit (exampleReady\<lparr>input := (lit ''hello'')\<rparr>)
        (Resolved (lit ''It is a web service.'')))
     = [\<lparr>role = Assistant, content = welcomeText exampleUrl\<rparr>,
        \<lparr>role = User, content = (lit ''hello'')\<rparr>,
        \<lparr>role = Assistant, content = (lit ''It is a web service.'')\<rparr>]
   \<and> apiCalls (handleChatSubmit (exampleReady\<lparr>input := (lit ''hello'')\<rparr>)
        (Resolved (lit ''It is a web service.'')))
     = [IngestRepository exampleUrl, SendChatMessage (lit ''hello'') exampleUrl]
   \<and> messages (voiceTurn syn (lit ''hello'') exampleReady)
     \<noteq> messages (handleChatSubmit (exampleReady\<lparr>input := (lit ''hello'')\<rparr>)
          (Resolved (lit ''It is a web service.'')))"
  by (simp add: voiceTurn_def onresult_def handleMessageSubmit_def simulatedReply_def
      speakMessage_def handleChatSubmit_def handleChatSubmit_start_def trim_def
      isWhite_def lit_def exampleReady_def exampleUrl_def aiResponse_def)

subsection \<open>Submissions outside the ready state\<close>

text \<open>
  C2. The specification wants a chat submission, typed or spoken, to change nothing
  while the session is not ready. The page blocks the typed one (\<open>chat_form_blocked\<close>),
  but a transcript passes unchecked: in \<open>examplePending\<close>, where a question is in
  flight, the transcript \<open>hello\<close> appends a user message and schedules the simulated
  reply.
\<close>

theorem transcript_while_loading_mutates:
  "\<not> chatReady examplePending
   \<and> messages (onresult (lit ''hello'') examplePending)
       = messages examplePending @ [\<lparr>role = User, content = (lit ''hello'')\<rparr>]
   \<and> timers (onresult (lit ''hello'') examplePending) = Suc (timers examplePending)
   \<and> onresult (lit ''hello'') examplePending \<noteq> examplePending"
proof -
  have m: "messages (onresult (lit ''hello'') examplePending)
       = messages examplePending @ [\<lparr>role = User, content = (lit ''hello'')\<rparr>]"
    by (simp add: onresult_def handleMessageSubmit_def trim_def isWhite_def lit_def)
  have "messages (onresult (lit ''hello'') examplePending) \<noteq> messages examplePending"
    unfolding m by simp
  then have "onresult (lit ''hello'') examplePending \<noteq> examplePending"
    by auto
  moreover have "timers (onresult (lit ''hello'') examplePending) = Suc (timers examplePending)"
    by (simp add: onresult_def handleMessageSubmit_def trim_def isWhite_def lit_def)
  moreover have "\<not> chatReady examplePending"
    by (simp add: chatReady_def examplePending_def)
  ultimately show ?thesis using m by blast
qed

subsection \<open>Ingestion\<close>

text \<open>
  C3. A successful ingestion leaves the session ready for chat (repository content
  present, not loading), the message list equal to the single assistant welcome message
  built from the submitted URL, and makes no call of \<open>speakMessage\<close>: neither the log
  of its calls nor the utterances grow.
\<close>

theorem ingest_success_welcome:
  "chatReady (handleRepoSubmit s (Resolved result))
   \<and> messages (handleRepoSubmit s (Resolved result))
       = [\<lparr>role = Assistant, content = welcomeText (repoUrl s)\<rparr>]
   \<and> (\<exists>pre post. welcomeText (repoUrl s) = pre @ repoUrl s @ post)
   \<and> apiCalls (handleRepoSubmit s (Resolved result))
       = apiCalls s @ [IngestRepository (repoUrl s)]
   \<and> speakCalls (handleRepoSubmit s (Resolved result)) = speakCalls s
   \<and> utterances (handleRepoSubmit s (Resolved result)) = utterances s"
proof -
  have "welcomeText (repoUrl s) =
      lit (''Repository ingested successfully! I'' @ [CHR 0x27] @
           ''m ready to chat about the repository: '') @ repoUrl s @
      lit ''. What would you like to know?''"
    by (simp only: welcomeText_def)
  then have "\<exists>pre post. welcomeText (repoUrl s) = pre @ repoUrl s @ post"
    by blast
  then show ?thesis
    by (simp add: handleRepoSubmit_def handleRepoSubmit_start_def chatReady_def)
qed

subsection \<open>Chat round trips\<close>

text \<open>
  C4. A chat submission that is sent and answered appends exactly two messages, the
  user message with the submitted text and then the assistant message with the
  backend's reply; \<open>speakMessage\<close> is called exactly once, with the reply, and hands it
  to the synthesiser when there is one.
\<close>

theorem successful_ask_two_turns:
  assumes "trim (input s) \<noteq> []" and "repoUrl s \<noteq> []"
  shows "messages (handleChatSubmit s (Resolved reply))
           = messages s @ [\<lparr>role = User, content = input s\<rparr>,
                           \<lparr>role = Assistant, content = reply\<rparr>]
       \<and> length (messages (handleChatSubmit s (Resolved reply))) = length (messages s) + 2
       \<and> apiCalls (handleChatSubmit s (Resolved reply))
           = apiCalls s @ [SendChatMessage (input s) (repoUrl s)]
       \<and> speakCalls (handleChatSubmit s (Resolved reply)) = speakCalls s @ [reply]
       \<and> utterances (handleChatSubmit s (Resolved reply))
           = utterances s @ (if synthesis s then [reply] else [])"
  by (simp add: handleChatSubmit_sent [OF assms] speakMessage_def)

text \<open>C4 at the question \<open>what does this do?\<close> asked in \<open>exampleReady\<close>.\<close>

theorem successful_ask_two_turns_witness:
  "messages (handleChatSubmit (exampleReady\<lparr>input := (lit ''what does this do?'')\<rparr>)
      (Resolved (lit ''It is a web service.'')))
     = [\<lparr>role = Assistant, content = welcomeText exampleUrl\<rparr>,
        \<lparr>role = User, content = (lit ''what does this do?'')\<rparr>,
        \<lparr>role = Assistant, content = (lit ''It is a web service.'')\<rparr>]
   \<and> speakCalls (handleChatSubmit (exampleReady\<lparr>input := (lit ''what does this do?'')\<rparr>)
      (Resolved (lit ''It is a web service.''))) = [(lit ''It is a web service.'')]
   \<and> utterances (handleChatSubmit (exampleReady\<lparr>input := (lit ''what does this do?'')\<rparr>)
      (Resolved (lit ''It is a web service.''))) = [(lit ''It is a web service.'')]"
proof -
  have a: "trim (input (exampleReady\<lparr>input := (lit ''what does this do?'')\<rparr>)) \<noteq> []"
    by (simp add: trim_def isWhite_def lit_def)
  have b: "repoUrl (exampleReady\<lparr>input := (lit ''what does this do?'')\<rparr>) \<noteq> []"
    by (simp add: exampleReady_def exampleUrl_def lit_def)
  show ?thesis
    using successful_ask_two_turns [OF a b, of "(lit ''It is a web service.'')"]
    by (simp add: exampleReady_def)
qed

text \<open>
  C5. A chat submission sent from a ready session and rejected by the backend appends
  exactly one message, the user's; no assistant message is added and nothing is
  spoken; the session is ready again and \<open>error\<close> holds the normalised message.
\<close>

theorem failing_ask_one_turn:
  assumes "trim (input s) \<noteq> []" and "repoUrl s \<noteq> []" and "chatReady s"
  shows "messages (handleChatSubmit s (Rejected e))
           = messages s @ [\<lparr>role = User, content = input s\<rparr>]
       \<and> length (messages (handleChatSubmit s (Rejected e))) = length (messages s) + 1
       \<and> chatReady (handleChatSubmit s (Rejected e))
       \<and> error (handleChatSubmit s (Rejected e))
           = Some (errorText e (lit ''Failed to send message''))
       \<and> speakCalls (handleChatSubmit s (Rejected e)) = speakCalls s"
  using assms(3) by (simp add: handleChatSubmit_sent [OF assms(1,2)] chatReady_def)

text \<open>C5 at the same question, rejected with \<open>Repository not indexed\<close>.\<close>

theorem failing_ask_one_turn_witness:
  "chatReady (exampleReady\<lparr>input := (lit ''what does this do?'')\<rparr>)
   \<and> messages (handleChatSubmit (exampleReady\<lparr>input := (lit ''what does this do?'')\<rparr>)
      (Rejected (ErrorObj (lit ''Repository not indexed''))))
     = [\<lparr>role = Assistant, content = welcomeText exampleUrl\<rparr>,
        \<lparr>role = User, content = (lit ''what does this do?'')\<rparr>]
   \<and> chatReady (handleChatSubmit (exampleReady\<lparr>input := (lit ''what does this do?'')\<rparr>)
      (Rejected (ErrorObj (lit ''Repository not indexed''))))
   \<and> error (handleChatSubmit (exampleReady\<lparr>input := (lit ''what does this do?'')\<rparr>)
      (Rejected (ErrorObj (lit ''Repository not indexed'')))) = Some (lit ''Repository not indexed'')"
proof -
  have a: "trim (input (exampleReady\<lparr>input := (lit ''what does this do?'')\<rparr>)) \<noteq> []"
    by (simp add: trim_def isWhite_def lit_def)
  have b: "repoUrl (exampleReady\<lparr>input := (lit ''what does this do?'')\<rparr>) \<noteq> []"
    by (simp add: exampleReady_def exampleUrl_def lit_def)
  have c: "chatReady (exampleReady\<lparr>input := (lit ''what does this do?'')\<rparr>)"
    by (simp add: chatReady_def exampleReady_def)
  show ?thesis
    using c failing_ask_one_turn [OF a b c, of "ErrorObj (lit ''Repository not indexed'')"]
    by (simp add: exampleReady_def)
qed

text \<open>
  C6. The specification wants a successful chat round trip to clear a pending error
  message. The code leaves it: in \<open>exampleChatFailed\<close>, where the previous question
  failed, the next question is answered, the session is ready again, and \<open>error\<close>
  still holds the old message.
\<close>

theorem successful_ask_keeps_error:
  "error (exampleChatFailed\<lparr>input := (lit ''and now?'')\<rparr>) = Some (lit ''Repository not indexed'')
   \<and> error (handleChatSubmit (exampleChatFailed\<lparr>input := (lit ''and now?'')\<rparr>)
        (Resolved (lit ''It is a web service.''))) = Some (lit ''Repository not indexed'')
   \<and> messages (handleChatSubmit (exampleChatFailed\<lparr>input := (lit ''and now?'')\<rparr>)
        (Resolved (lit ''It is a web service.'')))
       = messages exampleChatFailed @ [\<lparr>role = User, content = (lit ''and now?'')\<rparr>,
           \<lparr>role = Assistant, content = (lit ''It is a web service.'')\<rparr>]
   \<and> chatReady (handleChatSubmit (exampleChatFailed\<lparr>input := (lit ''and now?'')\<rparr>)
        (Resolved (lit ''It is a web service.'')))"
  by (simp add: handleChatSubmit_def handleChatSubmit_start_def speakMessage_def trim_def
      isWhite_def lit_def chatReady_def exampleChatFailed_def exampleReady_def exampleUrl_def)

subsection \<open>Empty repository URL\<close>

text \<open>
  \<open>handleRepoSubmit\<close> has no check of its own: once it runs it sets \<open>isLoading\<close>,
  clears \<open>error\<close> and sends whatever \<open>repoUrl\<close> holds. What keeps an empty URL from
  the backend is the form in front of it.
\<close>

lemma handleRepoSubmit_start_unguarded:
  "isLoading (handleRepoSubmit_start s) \<and> error (handleRepoSubmit_start s) = None
   \<and> apiCalls (handleRepoSubmit_start s) = apiCalls s @ [IngestRepository (repoUrl s)]"
  by (simp add: handleRepoSubmit_start_def)

text \<open>No event that the page delivers sends an ingestion request for the empty URL.\<close>

lemma deliver_no_empty_ingest:
  assumes "deliver validUrl e s = Inr s1"
  shows "\<exists>calls. apiCalls s1 = apiCalls s @ calls \<and> IngestRepository [] \<notin> set calls"
proof (cases e)
  case SubmitRepoForm
  with assms have "repoUrl s \<noteq> []" and "s1 = handleRepoSubmit_start s"
    by (auto simp: deliver_def split: if_splits)
  then have "apiCalls s1 = apiCalls s @ [IngestRepository (repoUrl s)]
      \<and> IngestRepository [] \<notin> set [IngestRepository (repoUrl s)]"
    by (simp add: handleRepoSubmit_start_def)
  then show ?thesis by blast
next
  case SubmitChatForm
  with assms have s1: "s1 = fst (handleChatSubmit_start s)"
    by (auto simp: deliver_def split: if_splits)
  show ?thesis
  proof (cases "trim (input s) = [] \<or> repoUrl s = []")
    case True
    then have "apiCalls s1 = apiCalls s @ [] \<and> IngestRepository [] \<notin> set []"
      by (simp add: s1 handleChatSubmit_start_def)
    then show ?thesis by blast
  next
    case False
    then have "apiCalls s1 = apiCalls s @ [SendChatMessage (input s) (repoUrl s)]
        \<and> IngestRepository [] \<notin> set [SendChatMessage (input s) (repoUrl s)]"
      by (simp add: s1 handleChatSubmit_start_def)
    then show ?thesis by blast
  qed
next
  case (IngestSettled url out)
  with assms have "apiCalls s1 = apiCalls s @ [] \<and> IngestRepository [] \<notin> set []"
    by (cases out) (auto simp: deliver_def)
  then show ?thesis by blast
next
  case (AskSettled syn out)
  with assms have "apiCalls s1 = apiCalls s @ [] \<and> IngestRepository [] \<notin> set []"
    by (cases out) (auto simp: deliver_def speakMessage_def)
  then show ?thesis by blast
next
  case (Mount hasSR hasWebkitSR hasSynth)
  with assms have "apiCalls s1 = apiCalls s @ [] \<and> IngestRepository [] \<notin> set []"
    by (auto simp: deliver_def useEffect_mount_def)
  then show ?thesis by blast
next
  case (ChangeRepoUrl v)
  with assms have "apiCalls s1 = apiCalls s @ [] \<and> IngestRepository [] \<notin> set []"
    by (auto simp: deliver_def split: if_splits)
  then show ?thesis by blast
next
  case (ChangeInput v)
  with assms have "apiCalls s1 = apiCalls s @ [] \<and> IngestRepository [] \<notin> set []"
    by (auto simp: deliver_def split: if_splits)
  then show ?thesis by blast
next
  case (ClickMic throws)
  with assms have "apiCalls s1 = apiCalls s @ [] \<and> IngestRepository [] \<notin> set []"
    by (auto simp: deliver_def toggleListening_def split: if_splits)
  then show ?thesis by blast
next
  case (RecResult transcript)
  with assms have "apiCalls s1 = apiCalls s @ [] \<and> IngestRepository [] \<notin> set []"
    by (auto simp: deliver_def onresult_def handleMessageSubmit_def)
  then show ?thesis by blast
next
  case RecError
  with assms have "apiCalls s1 = apiCalls s @ [] \<and> IngestRepository [] \<notin> set []"
    by (auto simp: deliver_def onerror_def)
  then show ?thesis by blast
next
  case RecEnd
  with assms have "apiCalls s1 = apiCalls s @ [] \<and> IngestRepository [] \<notin> set []"
    by (auto simp: deliver_def onend_def)
  then show ?thesis by blast
next
  case (TimerFired syn)
  with assms have "apiCalls s1 = apiCalls s @ [] \<and> IngestRepository [] \<notin> set []"
    by (auto simp: deliver_def simulatedReply_def speakMessage_def)
  then show ?thesis by blast
qed

lemma run_no_empty_ingest:
  "run validUrl es s = Inr s1 \<Longrightarrow>
     \<exists>calls. apiCalls s1 = apiCalls s @ calls \<and> IngestRepository [] \<notin> set calls"
proof (induction es arbitrary: s)
  case Nil
  then have "apiCalls s1 = apiCalls s @ [] \<and> IngestRepository [] \<notin> set []" by simp
  then show ?case by blast
next
  case (Cons e es)
  from Cons.prems obtain s2 where d: "deliver validUrl e s = Inr s2"
    and r: "run validUrl es s2 = Inr s1"
    by (auto split: sum.splits)
  from deliver_no_empty_ingest [OF d] obtain c1
    where c1: "apiCalls s2 = apiCalls s @ c1" "IngestRepository [] \<notin> set c1" by blast
  from Cons.IH [OF r] obtain c2
    where c2: "apiCalls s1 = apiCalls s2 @ c2" "IngestRepository [] \<notin> set c2" by blast
  have "apiCalls s1 = apiCalls s @ (c1 @ c2) \<and> IngestRepository [] \<notin> set (c1 @ c2)"
    using c1 c2 by simp
  then show ?case by blast
qed

text \<open>
  C7. An ingest attempt with an empty URL is rejected at once: the page does not
  deliver the submit event and reports the missing value (or, while loading, the form
  is disabled), the handler does not run, and the state after the attempt is the state
  before it, so \<open>isLoading\<close> is not set and no backend call is recorded. Over whole
  sessions: whatever events the page delivers, from whatever state, none of the backend
  calls made is an ingestion of the empty URL.
\<close>

theorem empty_url_rejected:
  "(repoUrl s = [] \<longrightarrow>
      deliver validUrl SubmitRepoForm s = Inl (if isLoading s then Disabled else ValueMissing)
      \<and> attempt validUrl SubmitRepoForm s = s)
   \<and> (run validUrl es s0 = Inr s1 \<longrightarrow>
      (\<exists>calls. apiCalls s1 = apiCalls s0 @ calls \<and> IngestRepository [] \<notin> set calls))"
proof -
  have "deliver validUrl SubmitRepoForm s = Inl (if isLoading s then Disabled else ValueMissing)
      \<and> attempt validUrl SubmitRepoForm s = s" if "repoUrl s = []"
    using that by (simp add: attempt_def deliver_def)
  moreover have "\<exists>calls. apiCalls s1 = apiCalls s0 @ calls \<and> IngestRepository [] \<notin> set calls"
    if "run validUrl es s0 = Inr s1"
    using that by (rule run_no_empty_ingest)
  ultimately show ?thesis by blast
qed

text \<open>
  C7 at the initial state, whose URL field is empty, and at the session that leads from
  it to \<open>exampleReady\<close>.
\<close>

theorem empty_url_rejected_witness:
  "repoUrl initial = []
   \<and> deliver (\<lambda>u. True) SubmitRepoForm initial = Inl ValueMissing
   \<and> attempt (\<lambda>u. True) SubmitRepoForm initial = initial
   \<and> apiCalls exampleReady = apiCalls initial @ [IngestRepository exampleUrl]
   \<and> IngestRepository [] \<notin> set (apiCalls exampleReady)"
proof -
  have a: "repoUrl initial = []" and b: "\<not> isLoading initial" and c: "apiCalls initial = []"
    by (simp_all add: initial_def)
  have r: "run (\<lambda>u. True)
     [Mount True False True, ChangeRepoUrl exampleUrl, SubmitRepoForm,
      IngestSettled exampleUrl (Resolved exampleRepo)] initial = Inr exampleReady"
    by (rule exampleReady_reachable)
  note t = empty_url_rejected [of initial "\<lambda>u. True"
      "[Mount True False True, ChangeRepoUrl exampleUrl, SubmitRepoForm,
        IngestSettled exampleUrl (Resolved exampleRepo)]" initial exampleReady]
  have t1: "deliver (\<lambda>u. True) SubmitRepoForm initial
        = Inl (if isLoading initial then Disabled else ValueMissing)
      \<and> attempt (\<lambda>u. True) SubmitRepoForm initial = initial"
    using t a by blast
  have t2: "\<exists>calls. apiCalls exampleReady = apiCalls initial @ calls
      \<and> IngestRepository [] \<notin> set calls"
    using t r by blast
  have d: "apiCalls exampleReady = apiCalls initial @ [IngestRepository exampleUrl]"
    by (simp add: c exampleReady_def)
  from t2 have "IngestRepository [] \<notin> set (apiCalls exampleReady)"
    using c by auto
  then show ?thesis using a b t1 d by simp
qed

subsection \<open>Growth of the message list\<close>

text \<open>
  C8, as the specification states it, fails: a successful ingestion replaces the
  message list. Ingesting again after one answered question leaves only the welcome
  message, and the three earlier messages are not a prefix of that.
\<close>

theorem reingest_discards_log:
  "messages exampleChatted
     = [\<lparr>role = Assistant, content = welcomeText exampleUrl\<rparr>,
        \<lparr>role = User, content = (lit ''what does this do?'')\<rparr>,
        \<lparr>role = Assistant, content = (lit ''It is a web service.'')\<rparr>]
   \<and> messages (handleRepoSubmit exampleChatted (Resolved exampleRepo))
     = [\<lparr>role = Assistant, content = welcomeText exampleUrl\<rparr>]
   \<and> \<not> prefix (messages exampleChatted)
        (messages (handleRepoSubmit exampleChatted (Resolved exampleRepo)))"
  by (simp add: handleRepoSubmit_def handleRepoSubmit_start_def exampleChatted_def
      exampleReady_def)

text \<open>
  C8, amended. Every event other than the success of an ingestion leaves the earlier
  message list as a prefix of the new one; the success of an ingestion replaces the
  list by the single welcome message.
\<close>

theorem log_prefix_unless_ingest_succeeds:
  "(\<not> ingestSucceeded e \<longrightarrow> prefix (messages s) (messages (step e s)))
   \<and> messages (step (IngestSettled url (Resolved result)) s)
       = [\<lparr>role = Assistant, content = welcomeText url\<rparr>]"
proof -
  have "prefix (messages s) (messages (step e s))" if "\<not> ingestSucceeded e"
  proof (cases e)
    case (IngestSettled url out)
    with that show ?thesis by (cases out) simp_all
  next
    case (AskSettled syn out)
    then show ?thesis by (cases out) (simp_all add: speakMessage_def)
  qed (simp_all add: useEffect_mount_def handleRepoSubmit_start_def
      handleChatSubmit_start_def toggleListening_def onresult_def handleMessageSubmit_def
      onerror_def onend_def simulatedReply_def speakMessage_def Let_def)
  then show ?thesis by simp
qed

text \<open>C8, amended, at a transcript arriving in \<open>exampleChatted\<close>.\<close>

theorem log_prefix_unless_ingest_succeeds_witness:
  "\<not> ingestSucceeded (RecResult (lit ''hello''))
   \<and> prefix (messages exampleChatted) (messages (step (RecResult (lit ''hello'')) exampleChatted))
   \<and> messages (step (RecResult (lit ''hello'')) exampleChatted)
       = messages exampleChatted @ [\<lparr>role = User, content = (lit ''hello'')\<rparr>]"
  using log_prefix_unless_ingest_succeeds [of "RecResult (lit ''hello'')" exampleChatted]
  by (simp add: onresult_def handleMessageSubmit_def trim_def isWhite_def lit_def)

subsection \<open>Microphone button without speech recognition\<close>

text \<open>
  C9. The specification wants the microphone toggle to be inert when the browser has no
  speech recognition. The code makes no recognition call then (so nothing can throw),
  but it still flips \<open>isListening\<close>: in \<open>exampleNoSpeech\<close> the page delivers the
  click and the component ends up listening.
\<close>

theorem toggle_sets_listening_without_recognition:
  "\<not> recognition exampleNoSpeech
   \<and> \<not> isListening exampleNoSpeech
   \<and> isListening (toggleListening throws exampleNoSpeech)
   \<and> recCalls (toggleListening throws exampleNoSpeech) = recCalls exampleNoSpeech
   \<and> deliver validUrl (ClickMic throws) exampleNoSpeech
       = Inr (exampleNoSpeech\<lparr>isListening := True\<rparr>)"
  by (simp add: toggleListening_def deliver_def exampleNoSpeech_def exampleReady_def
      exampleRepo_def)

subsection \<open>Failed ingestion\<close>

text \<open>
  C10. A failing ingestion started while nothing is loading changes only the error
  message and the repository content: \<open>repoContent\<close> becomes \<^verbatim>\<open>null\<close>, \<open>error\<close> is
  set, and every other state cell, the message list in particular, is as before (the
  only other difference is the recorded call of \<^verbatim>\<open>ingestRepository\<close>).
\<close>

theorem failing_ingest_frame:
  assumes "\<not> isLoading s"
  shows "repoContent (handleRepoSubmit s (Rejected e)) = None
       \<and> error (handleRepoSubmit s (Rejected e)) = Some (errorText e (lit ''An error occurred''))
       \<and> messages (handleRepoSubmit s (Rejected e)) = messages s
       \<and> handleRepoSubmit s (Rejected e)
           = s\<lparr>repoContent := None,
               error := Some (errorText e (lit ''An error occurred'')),
               apiCalls := apiCalls s @ [IngestRepository (repoUrl s)]\<rparr>"
  using assms by (simp add: handleRepoSubmit_def handleRepoSubmit_start_def)

text \<open>
  C10 at a second ingestion that fails after a chat: the two earlier messages stay.
\<close>

theorem failing_ingest_frame_witness:
  "\<not> isLoading exampleChatFailed
   \<and> handleRepoSubmit exampleChatFailed (Rejected NonError)
       = exampleChatFailed\<lparr>repoContent := None, error := Some (lit ''An error occurred''),
           apiCalls := apiCalls exampleChatFailed @ [IngestRepository exampleUrl]\<rparr>
   \<and> messages (handleRepoSubmit exampleChatFailed (Rejected NonError))
       = [\<lparr>role = Assistant, content = welcomeText exampleUrl\<rparr>,
          \<lparr>role = User, content = (lit ''what does this do?'')\<rparr>]"
proof -
  have a: "\<not> isLoading exampleChatFailed"
    by (simp add: exampleChatFailed_def exampleReady_def)
  show ?thesis
    using a failing_ingest_frame [OF a, of NonError]
    by (simp add: exampleChatFailed_def exampleReady_def)
qed

end
